theory Spec2Isabelle
  imports Main "HOL-Library.Word" "HOL-Library.Sublist"
begin

unbundle bit_operations_syntax

section \<open>JavaScript values shared by the modules\<close>

text \<open>
  A value thrown by a JavaScript statement: an instance of \<open>Error\<close> with its message, or
  any other value. The handlers of the repository read it with
  \<open>error instanceof Error ? error.message : 'Unknown error'\<close>.
\<close>

datatype thrown = Error string | NonError

fun error_message :: "thrown \<Rightarrow> string" where
  "error_message (Error m) = m"
| "error_message NonError = ''Unknown error''"

text \<open>Truthiness of an optional string: \<open>undefined\<close>, \<open>null\<close> and \<open>''\<close> are falsy.\<close>

fun truthy_str :: "string option \<Rightarrow> bool" where
  "truthy_str None = False"
| "truthy_str (Some s) = (s \<noteq> [])"

section \<open>lib/revalidation: RevalidationManager\<close>

record RevalidationResult =
  success :: bool
  revalidatedPaths :: "string list"
  revalidatedTags :: "string list"
  error :: "string option"
  processingTime :: int

text \<open>
  The object state of a \<open>RevalidationManager\<close>: \<open>startTime\<close> and the two private arrays
  (prefixed, since the result record has fields of the same names).
\<close>

record RevalidationManager =
  startTime :: int
  mgr_revalidatedPaths :: "string list"
  mgr_revalidatedTags :: "string list"

text \<open>
  The framework's \<open>revalidatePath\<close> and \<open>revalidateTag\<close> of \<open>next/cache\<close> are not code of
  the repository. They are taken as a parameter: for each path (tag) the value the call
  throws, or \<open>None\<close> when it returns.
\<close>

record next_cache =
  next_revalidatePath :: "string \<Rightarrow> thrown option"
  next_revalidateTag :: "string \<Rightarrow> thrown option"

text \<open>
  A method of the manager mutates the object and either returns or throws: the model
  returns the thrown value, if any, together with the object as the method left it.
\<close>

type_synonym mgr_method = "RevalidationManager \<Rightarrow> thrown option \<times> RevalidationManager"

definition revalidatePath :: "next_cache \<Rightarrow> string \<Rightarrow> mgr_method" where
  "revalidatePath cache path m =
     (case next_revalidatePath cache path of
        Some e \<Rightarrow> (Some e, m)
      | None \<Rightarrow> (None, m\<lparr>mgr_revalidatedPaths := mgr_revalidatedPaths m @ [path]\<rparr>))"

definition revalidateTag :: "next_cache \<Rightarrow> string \<Rightarrow> mgr_method" where
  "revalidateTag cache tag m =
     (case next_revalidateTag cache tag of
        Some e \<Rightarrow> (Some e, m)
      | None \<Rightarrow> (None, m\<lparr>mgr_revalidatedTags := mgr_revalidatedTags m @ [tag]\<rparr>))"

text \<open>Statements in sequence: the first throw ends the sequence.\<close>

fun statements :: "mgr_method list \<Rightarrow> mgr_method" where
  "statements [] m = (None, m)"
| "statements (f # fs) m =
     (case f m of
        (Some e, m') \<Rightarrow> (Some e, m')
      | (None, m') \<Rightarrow> statements fs m')"

datatype action = Create | Update | Delete

text \<open>
  \<open>revalidateBlogPost(slug?, action)\<close>. The action only selects a log line.
\<close>

definition revalidateBlogPost :: "next_cache \<Rightarrow> string option \<Rightarrow> action \<Rightarrow> mgr_method" where
  "revalidateBlogPost cache slug act =
     statements
       ([revalidatePath cache ''/blog''] @
        (if truthy_str slug then [revalidatePath cache (''/blog/'' @ the slug)] else []) @
        [revalidatePath cache ''/sitemap.xml'',
         revalidatePath cache ''/rss.xml'',
         revalidateTag cache ''blog-posts''])"

definition revalidatePage :: "next_cache \<Rightarrow> string option \<Rightarrow> action \<Rightarrow> mgr_method" where
  "revalidatePage cache slug act =
     statements
       ((if truthy_str slug \<and> slug \<noteq> Some ''home'' then [revalidatePath cache (''/'' @ the slug)]
         else if slug = Some ''home'' then [revalidatePath cache ''/'']
         else []) @
        [revalidatePath cache ''/sitemap.xml'',
         revalidateTag cache ''pages''])"

definition revalidateGlobalSettings :: "next_cache \<Rightarrow> mgr_method" where
  "revalidateGlobalSettings cache =
     statements
       [revalidatePath cache ''/'',
        revalidatePath cache ''/blog'',
        revalidateTag cache ''site-settings'',
        revalidateTag cache ''layout'',
        revalidateTag cache ''navigation'']"

definition revalidateMedia :: "next_cache \<Rightarrow> string option \<Rightarrow> mgr_method" where
  "revalidateMedia cache mediaId =
     statements [revalidateTag cache ''media'', revalidateTag cache ''images'']"

text \<open>\<open>getResult\<close> and \<open>getErrorResult\<close> read the clock (\<open>Date.now()\<close>, here \<open>now\<close>).\<close>

definition getResult :: "int \<Rightarrow> RevalidationManager \<Rightarrow> RevalidationResult" where
  "getResult now m =
     \<lparr>success = True,
      revalidatedPaths = mgr_revalidatedPaths m,
      revalidatedTags = mgr_revalidatedTags m,
      error = None,
      processingTime = now - startTime m\<rparr>"

definition getErrorResult :: "int \<Rightarrow> string \<Rightarrow> RevalidationManager \<Rightarrow> RevalidationResult" where
  "getErrorResult now err m =
     \<lparr>success = False,
      revalidatedPaths = mgr_revalidatedPaths m,
      revalidatedTags = mgr_revalidatedTags m,
      error = Some err,
      processingTime = now - startTime m\<rparr>"

definition createRevalidationManager :: "int \<Rightarrow> RevalidationManager" where
  "createRevalidationManager now =
     \<lparr>startTime = now, mgr_revalidatedPaths = [], mgr_revalidatedTags = []\<rparr>"

section \<open>Node's crypto and Buffer, as the route uses them\<close>

text \<open>
  \<open>crypto.createHmac('sha256', key).update(payload).digest('hex')\<close>,
  \<open>Buffer.from(s, 'hex')\<close> and \<open>crypto.timingSafeEqual\<close> are library functions of the
  runtime. They are written out here (FIPS 180-4 and RFC 2104 for the digest, Node's
  documented behaviour for the other two), so that the theorems about \<open>verifySignature\<close>
  are about the digest the route really compares. A string is its sequence of bytes
  (UTF-8), which is what \<open>update\<close> hashes.
\<close>

type_synonym byte = "8 word"
type_synonym u32 = "32 word"

definition bytes_of_string :: "string \<Rightarrow> byte list" where
  "bytes_of_string s = map of_char s"

definition rotr :: "nat \<Rightarrow> u32 \<Rightarrow> u32" where
  "rotr n x = drop_bit n x OR push_bit (32 - n) x"

definition Ch :: "u32 \<Rightarrow> u32 \<Rightarrow> u32 \<Rightarrow> u32" where
  "Ch x y z = (x AND y) XOR (NOT x AND z)"

definition Maj :: "u32 \<Rightarrow> u32 \<Rightarrow> u32 \<Rightarrow> u32" where
  "Maj x y z = (x AND y) XOR (x AND z) XOR (y AND z)"

definition Sigma0 :: "u32 \<Rightarrow> u32" where
  "Sigma0 x = rotr 2 x XOR rotr 13 x XOR rotr 22 x"

definition Sigma1 :: "u32 \<Rightarrow> u32" where
  "Sigma1 x = rotr 6 x XOR rotr 11 x XOR rotr 25 x"

definition sigma0 :: "u32 \<Rightarrow> u32" where
  "sigma0 x = rotr 7 x XOR rotr 18 x XOR drop_bit 3 x"

definition sigma1 :: "u32 \<Rightarrow> u32" where
  "sigma1 x = rotr 17 x XOR rotr 19 x XOR drop_bit 10 x"

text \<open>
  The round constants: the first thirty-two bits of the fractional parts of the cube
  roots of the first sixty-four primes (FIPS 180-4, 4.2.2). \<open>root_bits r n b 0\<close> is the
  integer \<open>r\<close>-th root of \<open>n\<close>, found bit by bit below \<open>2 ^ b\<close>.
\<close>

definition is_prime :: "nat \<Rightarrow> bool" where
  "is_prime p = (2 \<le> p \<and> list_all (\<lambda>d. \<not> d dvd p) [2..<p])"

definition sha_primes :: "nat list" where
  "sha_primes = filter is_prime [2..<312]"

fun root_bits :: "nat \<Rightarrow> nat \<Rightarrow> nat \<Rightarrow> nat \<Rightarrow> nat" where
  "root_bits r n 0 acc = acc"
| "root_bits r n (Suc b) acc =
     (if (acc + 2 ^ b) ^ r \<le> n then root_bits r n b (acc + 2 ^ b) else root_bits r n b acc)"

definition frac_root_bits :: "nat \<Rightarrow> nat \<Rightarrow> u32" where
  "frac_root_bits r p = of_nat (root_bits r (p * 2 ^ (32 * r)) 40 0)"

definition K256 :: "u32 list" where
  "K256 = map (frac_root_bits 3) sha_primes"

type_synonym sha_state = "u32 \<times> u32 \<times> u32 \<times> u32 \<times> u32 \<times> u32 \<times> u32 \<times> u32"

definition H256 :: sha_state where
  "H256 = (0x6a09e667, 0xbb67ae85, 0x3c6ef372, 0xa54ff53a,
           0x510e527f, 0x9b05688c, 0x1f83d9ab, 0x5be0cd19)"

definition be32 :: "u32 \<Rightarrow> byte list" where
  "be32 w = [ucast (drop_bit 24 w), ucast (drop_bit 16 w), ucast (drop_bit 8 w), ucast w]"

fun words_of_bytes :: "byte list \<Rightarrow> u32 list" where
  "words_of_bytes (a # b # c # d # rest) =
     (push_bit 24 (ucast a) OR push_bit 16 (ucast b) OR push_bit 8 (ucast c) OR ucast d)
       # words_of_bytes rest"
| "words_of_bytes _ = []"

definition be64 :: "nat \<Rightarrow> byte list" where
  "be64 n = map (\<lambda>i. ucast (drop_bit (8 * (7 - i)) (of_nat n :: 64 word))) [0..<8]"

text \<open>Padding: the bit 1, zeros up to 56 modulo 64 bytes, the length in bits.\<close>

definition sha_pad :: "byte list \<Rightarrow> byte list" where
  "sha_pad msg =
     msg @ [0x80] @ replicate ((119 - length msg mod 64) mod 64) 0 @ be64 (8 * length msg)"

text \<open>The message schedule: the sixteen words of the block, extended by \<open>n\<close> words.\<close>

fun schedule :: "nat \<Rightarrow> u32 list \<Rightarrow> u32 list" where
  "schedule 0 w = w"
| "schedule (Suc n) w =
     schedule n
       (w @ [sigma1 (w ! (length w - 2)) + w ! (length w - 7)
             + sigma0 (w ! (length w - 15)) + w ! (length w - 16)])"

fun sha_round :: "sha_state \<Rightarrow> u32 \<times> u32 \<Rightarrow> sha_state" where
  "sha_round (a, b, c, d, e, f, g, h) (k, w) =
     (let t1 = h + Sigma1 e + Ch e f g + k + w;
          t2 = Sigma0 a + Maj a b c
      in (t1 + t2, a, b, c, d + t1, e, f, g))"

fun add_state :: "sha_state \<Rightarrow> sha_state \<Rightarrow> sha_state" where
  "add_state (a, b, c, d, e, f, g, h) (a', b', c', d', e', f', g', h') =
     (a + a', b + b', c + c', d + d', e + e', f + f', g + g', h + h')"

definition compress :: "sha_state \<Rightarrow> byte list \<Rightarrow> sha_state" where
  "compress st block =
     add_state st (foldl sha_round st (zip K256 (schedule 48 (words_of_bytes block))))"

fun blocks :: "nat \<Rightarrow> byte list \<Rightarrow> sha_state \<Rightarrow> sha_state" where
  "blocks 0 bs st = st"
| "blocks (Suc n) bs st = blocks n (drop 64 bs) (compress st (take 64 bs))"

fun state_bytes :: "sha_state \<Rightarrow> byte list" where
  "state_bytes (a, b, c, d, e, f, g, h) =
     be32 a @ be32 b @ be32 c @ be32 d @ be32 e @ be32 f @ be32 g @ be32 h"

definition sha256 :: "byte list \<Rightarrow> byte list" where
  "sha256 msg = state_bytes (blocks (length (sha_pad msg) div 64) (sha_pad msg) H256)"

definition hmac_sha256 :: "byte list \<Rightarrow> byte list \<Rightarrow> byte list" where
  "hmac_sha256 key msg =
     (let k0 = (if length key > 64 then sha256 key else key);
          k = k0 @ replicate (64 - length k0) 0
      in sha256 (map (\<lambda>b. b XOR 0x5c) k @ sha256 (map (\<lambda>b. b XOR 0x36) k @ msg)))"

text \<open>\<open>digest('hex')\<close>: two lower-case digits a byte.\<close>

definition hex_digit :: "nat \<Rightarrow> char" where
  "hex_digit n = ''0123456789abcdef'' ! n"

definition hex_encode :: "byte list \<Rightarrow> string" where
  "hex_encode bs = concat (map (\<lambda>b. [hex_digit (unat b div 16), hex_digit (unat b mod 16)]) bs)"

text \<open>
  \<open>Buffer.from(s, 'hex')\<close>: pairs of hex digits (either case) are decoded from the left;
  decoding stops at the first pair that is not two hex digits, and an odd last character
  is dropped. The result is never an error, only a shorter buffer.
\<close>

definition unhex :: "char \<Rightarrow> nat option" where
  "unhex c =
     (let n = (of_char c :: nat)
      in if 48 \<le> n \<and> n \<le> 57 then Some (n - 48)
         else if 97 \<le> n \<and> n \<le> 102 then Some (n - 87)
         else if 65 \<le> n \<and> n \<le> 70 then Some (n - 55)
         else None)"

fun hex_decode :: "string \<Rightarrow> byte list" where
  "hex_decode (a # b # rest) =
     (case (unhex a, unhex b) of
        (Some x, Some y) \<Rightarrow> of_nat (16 * x + y) # hex_decode rest
      | _ \<Rightarrow> [])"
| "hex_decode _ = []"

text \<open>
  \<open>crypto.timingSafeEqual(a, b)\<close> throws a \<open>RangeError\<close> when the two buffers differ in
  byte length, and compares them otherwise.
\<close>

definition timingSafeEqual :: "byte list \<Rightarrow> byte list \<Rightarrow> thrown + bool" where
  "timingSafeEqual a b =
     (if length a \<noteq> length b then Inl (Error ''Input buffers must have the same byte length'')
      else Inr (a = b))"

text \<open>\<open>s.replace(pat, rep)\<close> with a string pattern: the first occurrence only.\<close>

fun replace_first :: "string \<Rightarrow> string \<Rightarrow> string \<Rightarrow> string" where
  "replace_first pat rep [] = (if pat = [] then rep else [])"
| "replace_first pat rep (c # cs) =
     (if prefix pat (c # cs) then rep @ drop (length pat) (c # cs)
      else c # replace_first pat rep cs)"

section \<open>app/api/webhooks/build/route: the signature check\<close>

text \<open>\<open>const WEBHOOK_SECRET = process.env.WEBHOOK_SECRET || 'your-webhook-secret'\<close>\<close>

definition WEBHOOK_SECRET :: "string option \<Rightarrow> string" where
  "WEBHOOK_SECRET env = (if truthy_str env then the env else ''your-webhook-secret'')"

text \<open>
  \<open>verifySignature(payload, signature)\<close>, with the module constant as a parameter. The
  result is the boolean the function returns, or the value it throws.
\<close>

definition verifySignature :: "string \<Rightarrow> string \<Rightarrow> string \<Rightarrow> thrown + bool" where
  "verifySignature secret payload signature =
     (if signature = [] then Inr False
      else
        let expectedSignature =
              hex_encode (hmac_sha256 (bytes_of_string secret) (bytes_of_string payload));
            receivedSignature = replace_first ''sha256='' [] signature
        in timingSafeEqual (hex_decode expectedSignature) (hex_decode receivedSignature))"

section \<open>app/api/webhooks/build/route: the dispatcher\<close>

text \<open>
  The \<open>data\<close> object of a webhook payload. \<open>data.type\<close> is kept as the string the JSON
  carried (\<open>None\<close> when the field is absent), since the switch of \<open>handleRevalidation\<close>
  has a default branch for the strings outside the declared union; an absent \<open>action\<close>
  takes the methods' default \<open>update\<close>.
\<close>

record webhook_data =
  data_type :: "string option"
  data_id :: "string option"
  data_slug :: "string option"
  data_domain :: string
  data_status :: "string option"
  data_action :: action

text \<open>
  \<open>handleRevalidation(payload)\<close>: \<open>t0\<close> is the clock when the manager is constructed,
  \<open>t1\<close> when the result is read.
\<close>

definition handleRevalidation ::
  "next_cache \<Rightarrow> int \<Rightarrow> int \<Rightarrow> webhook_data \<Rightarrow> RevalidationResult" where
  "handleRevalidation cache t0 t1 d =
     (let manager = createRevalidationManager t0;
          finish = (\<lambda>r. case r of
                      (None, m) \<Rightarrow> getResult t1 m
                    | (Some e, m) \<Rightarrow> getErrorResult t1 (error_message e) m)
      in if data_type d = Some ''post'' then
           finish (revalidateBlogPost cache (data_slug d) (data_action d) manager)
         else if data_type d = Some ''page'' then
           finish (revalidatePage cache (data_slug d) (data_action d) manager)
         else if data_type d = Some ''settings'' then
           finish (revalidateGlobalSettings cache manager)
         else if data_type d = Some ''media'' then
           finish (revalidateMedia cache (data_id d) manager)
         else getErrorResult t1
                (''Unknown content type: ''
                   @ (case data_type d of Some t \<Rightarrow> t | None \<Rightarrow> ''undefined'')) manager)"

text \<open>
  The signature header the repository's end-to-end test sends
  (\<open>'sha256=' + createHmac('sha256', secret).update(body).digest('hex')\<close>).
\<close>

definition signature_header :: "string \<Rightarrow> string \<Rightarrow> string" where
  "signature_header secret body =
     ''sha256='' @ hex_encode (hmac_sha256 (bytes_of_string secret) (bytes_of_string body))"

section \<open>app/api/webhooks/build/route: the POST handler\<close>

text \<open>
  The parsed body. \<open>JSON.parse\<close> is the runtime's: the handler takes its outcome on the
  request's body as a parameter. A JSON value other than \<open>null\<close> is read through its
  fields \<open>event\<close> and \<open>data\<close> only, so it is a record of optional fields (a number or an
  array has none of them); reading a field of \<open>null\<close> throws.
\<close>

record webhook_payload =
  event :: "string option"
  data :: "webhook_data option"
  timestamp :: "string option"

datatype json_parsed = JsonSyntaxError | JsonNull | JsonObject webhook_payload

record webhook_request =
  request_text :: string
  x_signature_256 :: "string option"
  x_hub_signature_256 :: "string option"

datatype response_body =
    ErrorBody string
  | RevalidationFailed "string option" int
  | SuccessBody "string option" "string list" "string list" int
  | InternalServerError int

record http_response =
  http_status :: nat
  http_body :: response_body

text \<open>
  \<open>request.headers.get('x-signature-256') || request.headers.get('x-hub-signature-256') || ''\<close>
\<close>

definition request_signature :: "webhook_request \<Rightarrow> string" where
  "request_signature request =
     (if truthy_str (x_signature_256 request) then the (x_signature_256 request)
      else if truthy_str (x_hub_signature_256 request) then the (x_hub_signature_256 request)
      else [])"

text \<open>The body of the handler's outer \<open>try\<close>: a response, or the value thrown.\<close>

definition POST_try ::
  "string \<Rightarrow> (string \<Rightarrow> json_parsed) \<Rightarrow> next_cache \<Rightarrow> int \<Rightarrow> int \<Rightarrow> webhook_request
     \<Rightarrow> thrown + http_response" where
  "POST_try secret JSON_parse cache t0 t1 request =
     (let body = request_text request;
          signature = request_signature request
      in case verifySignature secret body signature of
           Inl e \<Rightarrow> Inl e
         | Inr valid \<Rightarrow>
             if \<not> valid then
               Inr \<lparr>http_status = 401, http_body = ErrorBody ''Invalid signature''\<rparr>
             else
               (case JSON_parse body of
                  JsonSyntaxError \<Rightarrow>
                    Inr \<lparr>http_status = 400, http_body = ErrorBody ''Invalid JSON payload''\<rparr>
                | JsonNull \<Rightarrow> Inl (Error ''Cannot read properties of null'')
                | JsonObject payload \<Rightarrow>
                    if \<not> truthy_str (event payload) \<or> data payload = None
                       \<or> \<not> truthy_str (data_type (the (data payload))) then
                      Inr \<lparr>http_status = 400, http_body = ErrorBody ''Invalid payload structure''\<rparr>
                    else
                      let revalidationResult = handleRevalidation cache t0 t1 (the (data payload))
                      in if \<not> success revalidationResult then
                           Inr \<lparr>http_status = 500,
                                http_body = RevalidationFailed (error revalidationResult)
                                              (processingTime revalidationResult)\<rparr>
                         else
                           Inr \<lparr>http_status = 200,
                                http_body = SuccessBody (event payload)
                                              (revalidatedPaths revalidationResult)
                                              (revalidatedTags revalidationResult)
                                              (processingTime revalidationResult)\<rparr>))"

text \<open>
  \<open>POST(request)\<close>: \<open>t_start\<close> is the clock on entry, \<open>t_catch\<close> the clock in the
  outer \<open>catch\<close>, which answers 500 to whatever the body threw.
\<close>

definition POST ::
  "string \<Rightarrow> (string \<Rightarrow> json_parsed) \<Rightarrow> next_cache \<Rightarrow> int \<Rightarrow> int \<Rightarrow> int \<Rightarrow> int
     \<Rightarrow> webhook_request \<Rightarrow> http_response" where
  "POST secret JSON_parse cache t_start t0 t1 t_catch request =
     (case POST_try secret JSON_parse cache t0 t1 request of
        Inr response \<Rightarrow> response
      | Inl e \<Rightarrow>
          \<lparr>http_status = 500, http_body = InternalServerError (t_catch - t_start)\<rparr>)"

section \<open>lib/webhook-config: WebhookManager\<close>

datatype environment = Staging | Production

fun environment_name :: "environment \<Rightarrow> string" where
  "environment_name Staging = ''staging''"
| "environment_name Production = ''production''"

record DeployHookConfig =
  hook_url :: string
  hook_name :: string
  hook_branch :: string
  hook_environment :: environment

record DeployHooks =
  staging :: DeployHookConfig
  production :: DeployHookConfig

record WebhookConfig =
  config_endpoint :: string
  config_secret :: string
  deployHooks :: DeployHooks

fun getDeployHook :: "WebhookConfig \<Rightarrow> environment \<Rightarrow> DeployHookConfig" where
  "getDeployHook config Staging = staging (deployHooks config)"
| "getDeployHook config Production = production (deployHooks config)"

text \<open>
  The runtime's \<open>fetch\<close> is a parameter: for a request it either rejects (a network-level
  failure) or resolves to a response with a status, a status text and a body;
  \<open>response.ok\<close> is the status being in 200..299. \<open>response.json()\<close> rejects on a body
  that is not JSON; of the parsed value the code reads the fields \<open>deploymentId\<close> and
  \<open>id\<close>, which throws when the value is \<open>null\<close>.
\<close>

record fetch_request =
  request_url :: string
  request_method :: string
  body_reason :: string
  body_timestamp :: int
  body_environment :: environment

datatype response_json =
    JsonRejects thrown
  | JsonIsNull
  | JsonFields "string option" "string option"

record fetch_response =
  response_status :: nat
  response_statusText :: string
  response_json :: response_json

datatype fetch_outcome = Rejects thrown | Resolves fetch_response

definition response_ok :: "fetch_response \<Rightarrow> bool" where
  "response_ok r = (200 \<le> response_status r \<and> response_status r \<le> 299)"

text \<open>A number in a template literal: its decimal digits.\<close>

fun decimal :: "nat \<Rightarrow> string" where
  "decimal n =
     (if n < 10 then [char_of (48 + n)]
      else decimal (n div 10) @ [char_of (48 + n mod 10)])"

declare decimal.simps [simp del]

record deploy_result =
  deploy_success :: bool
  deploymentId :: "string option"
  deploy_error :: "string option"

text \<open>
  The \<open>try\<close> block of \<open>triggerDeploy\<close>: the result it returns or the value it throws.
  \<open>now\<close> is the clock behind \<open>new Date().toISOString()\<close>.
\<close>

definition deploy_request :: "DeployHookConfig \<Rightarrow> int \<Rightarrow> environment \<Rightarrow> string option \<Rightarrow> fetch_request" where
  "deploy_request deployHook now env reason =
     \<lparr>request_url = hook_url deployHook,
      request_method = ''POST'',
      body_reason = (if truthy_str reason then the reason else ''Manual deployment trigger''),
      body_timestamp = now,
      body_environment = env\<rparr>"

definition triggerDeploy_try ::
  "(fetch_request \<Rightarrow> fetch_outcome) \<Rightarrow> fetch_request \<Rightarrow> thrown + deploy_result" where
  "triggerDeploy_try fetch request =
     (case fetch request of
        Rejects e \<Rightarrow> Inl e
      | Resolves response \<Rightarrow>
          if \<not> response_ok response then
            Inl (Error (''Deploy hook returned '' @ decimal (response_status response)
                        @ '': '' @ response_statusText response))
          else
            (case response_json response of
               JsonRejects e \<Rightarrow> Inl e
             | JsonIsNull \<Rightarrow> Inl (Error ''Cannot read properties of null'')
             | JsonFields deployment_id ident \<Rightarrow>
                 Inr \<lparr>deploy_success = True,
                      deploymentId = (if truthy_str deployment_id then deployment_id else ident),
                      deploy_error = None\<rparr>))"

text \<open>
  \<open>triggerDeploy(environment, reason)\<close>: the result, and the requests it sent with
  \<open>fetch\<close>.
\<close>

definition triggerDeploy ::
  "WebhookConfig \<Rightarrow> (fetch_request \<Rightarrow> fetch_outcome) \<Rightarrow> int \<Rightarrow> environment \<Rightarrow> string option
     \<Rightarrow> deploy_result \<times> fetch_request list" where
  "triggerDeploy config fetch now env reason =
     (let deployHook = getDeployHook config env
      in if hook_url deployHook = [] then
           (\<lparr>deploy_success = False, deploymentId = None,
             deploy_error = Some (''No deploy hook configured for '' @ environment_name env)\<rparr>, [])
         else
           let request = deploy_request deployHook now env reason
           in (case triggerDeploy_try fetch request of
                 Inr result \<Rightarrow> (result, [request])
               | Inl e \<Rightarrow>
                   (\<lparr>deploy_success = False, deploymentId = None,
                     deploy_error = Some (error_message e)\<rparr>, [request])))"













section \<open>lib/deployment-monitor: DeploymentMonitor\<close>

datatype deployment_state =
  StatusPending | StatusBuilding | StatusReady | StatusError | StatusCanceled

text \<open>
  A JavaScript number as the monitor meets it: a count of milliseconds, or \<open>NaN\<close>
  (the time of a string that is not a date). \<open>0\<close> and \<open>NaN\<close> are falsy.
\<close>

datatype js_number = Num int | NaN

fun truthy_num :: "js_number option \<Rightarrow> bool" where
  "truthy_num None = False"
| "truthy_num (Some NaN) = False"
| "truthy_num (Some (Num n)) = (n \<noteq> 0)"

fun js_minus :: "js_number \<Rightarrow> js_number \<Rightarrow> js_number" where
  "js_minus (Num a) (Num b) = Num (a - b)"
| "js_minus _ _ = NaN"

text \<open>
  The strings of \<open>createdAt\<close> and \<open>updatedAt\<close>. \<open>IsoDate t\<close> is the string
  \<open>new Date(t).toISOString()\<close>, which \<open>new Date(s).getTime()\<close> reads back as \<open>t\<close>;
  \<open>OtherString s\<close> is a string that is not a date, whose time is \<open>NaN\<close>. Only the empty
  string is falsy.
\<close>

datatype date_string = IsoDate int | OtherString string

fun getTime :: "date_string \<Rightarrow> js_number" where
  "getTime (IsoDate t) = Num t"
| "getTime (OtherString s) = NaN"

fun truthy_date :: "date_string option \<Rightarrow> bool" where
  "truthy_date None = False"
| "truthy_date (Some (IsoDate t)) = True"
| "truthy_date (Some (OtherString s)) = (s \<noteq> [])"

record DeploymentStatus =
  dep_id :: string
  dep_environment :: environment
  dep_status :: deployment_state
  dep_url :: "string option"
  createdAt :: date_string
  updatedAt :: date_string
  duration :: "js_number option"
  dep_error :: "string option"
  buildLogs :: "string list"

text \<open>\<open>Partial<DeploymentStatus> & { id: string }\<close>: every field but \<open>id\<close> may be absent.\<close>

record deployment_update =
  upd_id :: string
  upd_environment :: "environment option"
  upd_status :: "deployment_state option"
  upd_url :: "string option"
  upd_createdAt :: "date_string option"
  upd_updatedAt :: "date_string option"
  upd_duration :: "js_number option"
  upd_error :: "string option"
  upd_buildLogs :: "string list option"

text \<open>
  A JavaScript \<open>Map\<close> keeps its keys in insertion order: \<open>set\<close> on a present key
  replaces the value where it stands, on a new key appends. The monitor's private
  \<open>deployments\<close> is such a map; \<open>maxHistory\<close> is the constant 50.
\<close>

type_synonym DeploymentMonitor = "(string \<times> DeploymentStatus) list"

fun map_set :: "'k \<Rightarrow> 'v \<Rightarrow> ('k \<times> 'v) list \<Rightarrow> ('k \<times> 'v) list" where
  "map_set k v [] = [(k, v)]"
| "map_set k v ((k', v') # m) = (if k' = k then (k, v) # m else (k', v') # map_set k v m)"

definition map_delete :: "'k \<Rightarrow> ('k \<times> 'v) list \<Rightarrow> ('k \<times> 'v) list" where
  "map_delete k m = filter (\<lambda>p. fst p \<noteq> k) m"

definition maxHistory :: nat where
  "maxHistory = 50"

definition new_monitor :: DeploymentMonitor where
  "new_monitor = []"

definition getDeployment :: "string \<Rightarrow> DeploymentMonitor \<Rightarrow> DeploymentStatus option" where
  "getDeployment k mon = map_of mon k"

text \<open>
  \<open>updateDeployment(deployment)\<close> at the time \<open>now\<close>. Each \<open>a || b\<close> of the source takes
  \<open>b\<close> when \<open>a\<close> is falsy; environments, states and arrays are never falsy.
\<close>

definition merged :: "int \<Rightarrow> deployment_update \<Rightarrow> DeploymentStatus option \<Rightarrow> DeploymentStatus" where
  "merged now deployment existing =
     \<lparr>dep_id = upd_id deployment,
      dep_environment =
        (case upd_environment deployment of
           Some e \<Rightarrow> e
         | None \<Rightarrow> (case existing of Some x \<Rightarrow> dep_environment x | None \<Rightarrow> Staging)),
      dep_status =
        (case upd_status deployment of
           Some s \<Rightarrow> s
         | None \<Rightarrow> (case existing of Some x \<Rightarrow> dep_status x | None \<Rightarrow> StatusPending)),
      dep_url =
        (if truthy_str (upd_url deployment) then upd_url deployment
         else (case existing of Some x \<Rightarrow> dep_url x | None \<Rightarrow> None)),
      createdAt =
        (if truthy_date (upd_createdAt deployment) then the (upd_createdAt deployment)
         else if truthy_date (map_option createdAt existing) then createdAt (the existing)
         else IsoDate now),
      updatedAt = IsoDate now,
      duration =
        (if truthy_num (upd_duration deployment) then upd_duration deployment
         else (case existing of Some x \<Rightarrow> duration x | None \<Rightarrow> None)),
      dep_error =
        (if truthy_str (upd_error deployment) then upd_error deployment
         else (case existing of Some x \<Rightarrow> dep_error x | None \<Rightarrow> None)),
      buildLogs =
        (case upd_buildLogs deployment of
           Some logs \<Rightarrow> logs
         | None \<Rightarrow> (case existing of Some x \<Rightarrow> buildLogs x | None \<Rightarrow> []))\<rparr>"

definition updateDeployment :: "int \<Rightarrow> deployment_update \<Rightarrow> DeploymentMonitor \<Rightarrow> DeploymentMonitor" where
  "updateDeployment now deployment mon =
     (let existing = getDeployment (upd_id deployment) mon;
          updated = merged now deployment existing;
          mon' = map_set (upd_id deployment) updated mon
      in if length mon' > maxHistory then
           (case mon' of
              [] \<Rightarrow> mon'
            | (oldestKey, oldest) # rest \<Rightarrow> map_delete oldestKey mon')
         else mon')"

text \<open>An update that names the id only.\<close>

definition only_id :: "string \<Rightarrow> deployment_update" where
  "only_id k =
     \<lparr>upd_id = k, upd_environment = None, upd_status = None, upd_url = None,
      upd_createdAt = None, upd_updatedAt = None, upd_duration = None, upd_error = None,
      upd_buildLogs = None\<rparr>"

definition startDeployment :: "int \<Rightarrow> string \<Rightarrow> environment \<Rightarrow> DeploymentMonitor \<Rightarrow> DeploymentMonitor" where
  "startDeployment now k env mon =
     updateDeployment now
       ((only_id k)\<lparr>upd_environment := Some env, upd_status := Some StatusPending\<rparr>) mon"

definition markBuilding :: "int \<Rightarrow> string \<Rightarrow> string list option \<Rightarrow> DeploymentMonitor \<Rightarrow> DeploymentMonitor" where
  "markBuilding now k logs mon =
     updateDeployment now
       ((only_id k)\<lparr>upd_status := Some StatusBuilding, upd_buildLogs := logs\<rparr>) mon"

text \<open>
  The elapsed time \<open>deployment?.createdAt ? Date.now() - new Date(deployment.createdAt).getTime()
  : undefined\<close> of \<open>markReady\<close> and \<open>markFailed\<close>.
\<close>

definition elapsed :: "int \<Rightarrow> DeploymentStatus option \<Rightarrow> js_number option" where
  "elapsed now deployment =
     (if truthy_date (map_option createdAt deployment)
      then Some (js_minus (Num now) (getTime (createdAt (the deployment))))
      else None)"

definition markReady ::
  "int \<Rightarrow> string \<Rightarrow> string option \<Rightarrow> js_number option \<Rightarrow> DeploymentMonitor \<Rightarrow> DeploymentMonitor" where
  "markReady now k url buildTime mon =
     (let deployment = getDeployment k mon;
          d = (if truthy_num buildTime then buildTime else elapsed now deployment)
      in updateDeployment now
           ((only_id k)\<lparr>upd_status := Some StatusReady, upd_url := url, upd_duration := d\<rparr>) mon)"

definition markFailed ::
  "int \<Rightarrow> string \<Rightarrow> string \<Rightarrow> string list option \<Rightarrow> DeploymentMonitor \<Rightarrow> DeploymentMonitor" where
  "markFailed now k err logs mon =
     (let deployment = getDeployment k mon;
          d = elapsed now deployment
      in updateDeployment now
           ((only_id k)\<lparr>upd_status := Some StatusError, upd_error := Some err,
                        upd_duration := d, upd_buildLogs := logs\<rparr>) mon)"

definition clearHistory :: "DeploymentMonitor \<Rightarrow> DeploymentMonitor" where
  "clearHistory mon = []"

text \<open>The operations that change a monitor, each at the time the clock shows.\<close>

datatype monitor_op =
    UpdateDeployment deployment_update
  | StartDeployment string environment
  | MarkBuilding string "string list option"
  | MarkReady string "string option" "js_number option"
  | MarkFailed string string "string list option"
  | ClearHistory

fun apply_op :: "int \<times> monitor_op \<Rightarrow> DeploymentMonitor \<Rightarrow> DeploymentMonitor" where
  "apply_op (now, UpdateDeployment d) mon = updateDeployment now d mon"
| "apply_op (now, StartDeployment k env) mon = startDeployment now k env mon"
| "apply_op (now, MarkBuilding k logs) mon = markBuilding now k logs mon"
| "apply_op (now, MarkReady k url buildTime) mon = markReady now k url buildTime mon"
| "apply_op (now, MarkFailed k err logs) mon = markFailed now k err logs mon"
| "apply_op (now, ClearHistory) mon = clearHistory mon"

fun run_ops :: "(int \<times> monitor_op) list \<Rightarrow> DeploymentMonitor \<Rightarrow> DeploymentMonitor" where
  "run_ops [] mon = mon"
| "run_ops (x # xs) mon = run_ops xs (apply_op x mon)"

text \<open>The id an operation is about (\<open>clearHistory\<close> has none).\<close>

fun op_id :: "monitor_op \<Rightarrow> string option" where
  "op_id (UpdateDeployment d) = Some (upd_id d)"
| "op_id (StartDeployment k env) = Some k"
| "op_id (MarkBuilding k logs) = Some k"
| "op_id (MarkReady k url buildTime) = Some k"
| "op_id (MarkFailed k err logs) = Some k"
| "op_id ClearHistory = None"

fun op_ids :: "(int \<times> monitor_op) list \<Rightarrow> string list" where
  "op_ids [] = []"
| "op_ids (x # xs) = (case op_id (snd x) of Some k \<Rightarrow> k # op_ids xs | None \<Rightarrow> op_ids xs)"

text \<open>
  The keys of the map, in order: a new key goes last, and \<open>updateDeployment\<close> drops the
  first key when the map has grown past \<open>maxHistory\<close>.
\<close>

definition insert_key :: "string list \<Rightarrow> string \<Rightarrow> string list" where
  "insert_key ks k = (if k \<in> set ks then ks else ks @ [k])"

definition key_step :: "string list \<Rightarrow> string \<Rightarrow> string list" where
  "key_step ks k =
     (if length (insert_key ks k) > maxHistory then tl (insert_key ks k) else insert_key ks k)"

section \<open>Properties of the dispatcher\<close>

lemma handleRevalidation_post:
  assumes "\<And>p. next_revalidatePath cache p = None" "\<And>t. next_revalidateTag cache t = None"
    and "data_type d = Some ''post''" "data_slug d = Some s" "s \<noteq> []"
  shows "handleRevalidation cache t0 t1 d =
     \<lparr>success = True,
      revalidatedPaths = [''/blog'', ''/blog/'' @ s, ''/sitemap.xml'', ''/rss.xml''],
      revalidatedTags = [''blog-posts''],
      error = None,
      processingTime = t1 - t0\<rparr>"
  using assms
  by (simp add: handleRevalidation_def revalidateBlogPost_def revalidatePath_def
      revalidateTag_def getResult_def createRevalidationManager_def)

text \<open>
  C8. Dispatching a post event with slug \<open>foo\<close> yields a result whose revalidated paths
  include \<open>/blog\<close>, \<open>/blog/foo\<close>, \<open>/sitemap.xml\<close> and \<open>/rss.xml\<close> and whose revalidated tags
  include \<open>blog-posts\<close>, whenever the framework's cache calls return.
\<close>

theorem post_foo_revalidates:
  assumes "\<And>p. next_revalidatePath cache p = None" "\<And>t. next_revalidateTag cache t = None"
    and "data_type d = Some ''post''" "data_slug d = Some ''foo''"
  shows "{''/blog'', ''/blog/foo'', ''/sitemap.xml'', ''/rss.xml''}
           \<subseteq> set (revalidatedPaths (handleRevalidation cache t0 t1 d))
         \<and> ''blog-posts'' \<in> set (revalidatedTags (handleRevalidation cache t0 t1 d))"
  using handleRevalidation_post [OF assms(1,2,3,4), of t0 t1] by simp

theorem post_foo_revalidates_witness:
  "{''/blog'', ''/blog/foo'', ''/sitemap.xml'', ''/rss.xml''}
     \<subseteq> set (revalidatedPaths (handleRevalidation
         \<lparr>next_revalidatePath = (\<lambda>p. None), next_revalidateTag = (\<lambda>t. None)\<rparr> 100 103
         \<lparr>data_type = Some ''post'', data_id = Some ''1'', data_slug = Some ''foo'',
          data_domain = ''example.com'', data_status = None, data_action = Update\<rparr>))
   \<and> ''blog-posts'' \<in> set (revalidatedTags (handleRevalidation
         \<lparr>next_revalidatePath = (\<lambda>p. None), next_revalidateTag = (\<lambda>t. None)\<rparr> 100 103
         \<lparr>data_type = Some ''post'', data_id = Some ''1'', data_slug = Some ''foo'',
          data_domain = ''example.com'', data_status = None, data_action = Update\<rparr>))"
  by (rule post_foo_revalidates) simp_all

lemma handleRevalidation_page:
  assumes "\<And>p. next_revalidatePath cache p = None" "\<And>t. next_revalidateTag cache t = None"
    and "data_type d = Some ''page''" "data_slug d = Some s" "s \<noteq> []"
  shows "handleRevalidation cache t0 t1 d =
     \<lparr>success = True,
      revalidatedPaths = [if s = ''home'' then ''/'' else ''/'' @ s, ''/sitemap.xml''],
      revalidatedTags = [''pages''],
      error = None,
      processingTime = t1 - t0\<rparr>"
  using assms
  by (simp add: handleRevalidation_def revalidatePage_def revalidatePath_def
      revalidateTag_def getResult_def createRevalidationManager_def)

text \<open>
  C9. Dispatching a page event with the sentinel slug \<open>home\<close> revalidates the root path
  \<open>/\<close> and does not revalidate \<open>/home\<close>; for every other non-empty slug \<open>s\<close> the path
  \<open>/s\<close> is revalidated; in both cases \<open>/sitemap.xml\<close> and the tag \<open>pages\<close> are revalidated
  (whenever the framework's cache calls return).
\<close>

theorem page_revalidates:
  assumes "\<And>p. next_revalidatePath cache p = None" "\<And>t. next_revalidateTag cache t = None"
    and "data_type d = Some ''page''" "data_slug d = Some s" "s \<noteq> []"
  shows "(if s = ''home''
          then ''/'' \<in> set (revalidatedPaths (handleRevalidation cache t0 t1 d))
             \<and> ''/home'' \<notin> set (revalidatedPaths (handleRevalidation cache t0 t1 d))
          else ''/'' @ s \<in> set (revalidatedPaths (handleRevalidation cache t0 t1 d)))
         \<and> ''/sitemap.xml'' \<in> set (revalidatedPaths (handleRevalidation cache t0 t1 d))
         \<and> ''pages'' \<in> set (revalidatedTags (handleRevalidation cache t0 t1 d))"
  using handleRevalidation_page [OF assms, of t0 t1] by simp

theorem page_revalidates_witness:
  "(''/'' \<in> set (revalidatedPaths (handleRevalidation
         \<lparr>next_revalidatePath = (\<lambda>p. None), next_revalidateTag = (\<lambda>t. None)\<rparr> 100 103
         \<lparr>data_type = Some ''page'', data_id = None, data_slug = Some ''home'',
          data_domain = ''example.com'', data_status = None, data_action = Update\<rparr>))
    \<and> ''/home'' \<notin> set (revalidatedPaths (handleRevalidation
         \<lparr>next_revalidatePath = (\<lambda>p. None), next_revalidateTag = (\<lambda>t. None)\<rparr> 100 103
         \<lparr>data_type = Some ''page'', data_id = None, data_slug = Some ''home'',
          data_domain = ''example.com'', data_status = None, data_action = Update\<rparr>)))
   \<and> ''/about'' \<in> set (revalidatedPaths (handleRevalidation
         \<lparr>next_revalidatePath = (\<lambda>p. None), next_revalidateTag = (\<lambda>t. None)\<rparr> 100 103
         \<lparr>data_type = Some ''page'', data_id = None, data_slug = Some ''about'',
          data_domain = ''example.com'', data_status = None, data_action = Delete\<rparr>))"
  using
    page_revalidates [of "\<lparr>next_revalidatePath = (\<lambda>p. None), next_revalidateTag = (\<lambda>t. None)\<rparr>"
      "\<lparr>data_type = Some ''page'', data_id = None, data_slug = Some ''home'',
          data_domain = ''example.com'', data_status = None, data_action = Update\<rparr>" "''home''" 100 103]
    page_revalidates [of "\<lparr>next_revalidatePath = (\<lambda>p. None), next_revalidateTag = (\<lambda>t. None)\<rparr>"
      "\<lparr>data_type = Some ''page'', data_id = None, data_slug = Some ''about'',
          data_domain = ''example.com'', data_status = None, data_action = Delete\<rparr>" "''about''" 100 103]
  by simp

text \<open>
  Without a slug (or with the empty one) a page event revalidates the sitemap and the tag
  only: no page path is touched.
\<close>

lemma handleRevalidation_page_no_slug:
  assumes "\<And>p. next_revalidatePath cache p = None" "\<And>t. next_revalidateTag cache t = None"
    and "data_type d = Some ''page''" "\<not> truthy_str (data_slug d)"
  shows "revalidatedPaths (handleRevalidation cache t0 t1 d) = [''/sitemap.xml'']"
  using assms
  by (cases "data_slug d")
     (auto simp add: handleRevalidation_def revalidatePage_def revalidatePath_def
      revalidateTag_def getResult_def createRevalidationManager_def)

section \<open>Properties of the signature check\<close>

lemma unhex_hex_digit: "n < 16 \<Longrightarrow> unhex (hex_digit n) = Some n"
proof -
  have "\<forall>n\<in>{0..<16::nat}. unhex (hex_digit n) = Some n" by code_simp
  then show "n < 16 \<Longrightarrow> unhex (hex_digit n) = Some n" by simp
qed

lemma hex_decode_encode: "hex_decode (hex_encode bs) = bs"
proof (induction bs)
  case Nil
  show ?case by (simp add: hex_encode_def)
next
  case (Cons b bs)
  have lt: "unat b div 16 < 16" "unat b mod 16 < 16"
  proof -
    have "unat b < 256" using unsigned_less [of b, where 'a = nat] by simp
    then show "unat b div 16 < 16" by simp
    show "unat b mod 16 < 16" by simp
  qed
  have "(of_nat (16 * (unat b div 16) + unat b mod 16) :: byte) = b"
    by simp
  with Cons lt show ?case
    by (simp add: hex_encode_def unhex_hex_digit)
qed

lemma length_state_bytes: "length (state_bytes st) = 32"
  by (induct st rule: state_bytes.induct) (simp add: be32_def)

lemma length_sha256: "length (sha256 m) = 32"
  by (simp add: sha256_def length_state_bytes)

lemma length_hmac_sha256: "length (hmac_sha256 k m) = 32"
  by (simp add: hmac_sha256_def Let_def length_sha256)

lemma replace_first_prefix: "p \<noteq> [] \<Longrightarrow> replace_first p r (p @ s) = r @ s"
  by (cases p) simp_all

text \<open>What \<open>verifySignature\<close> does on every input.\<close>

lemma verifySignature_cases:
  "verifySignature secret payload signature =
     (if signature = [] then Inr False
      else if length (hex_decode (replace_first ''sha256='' [] signature)) \<noteq> 32
      then Inl (Error ''Input buffers must have the same byte length'')
      else Inr (hex_decode (replace_first ''sha256='' [] signature)
                 = hmac_sha256 (bytes_of_string secret) (bytes_of_string payload)))"
  by (auto simp add: verifySignature_def Let_def timingSafeEqual_def hex_decode_encode
      length_hmac_sha256)

lemma verifySignature_signature_header:
  "verifySignature secret payload (signature_header secret' payload') =
     Inr (hmac_sha256 (bytes_of_string secret') (bytes_of_string payload')
          = hmac_sha256 (bytes_of_string secret) (bytes_of_string payload))"
proof -
  have "replace_first ''sha256='' [] (signature_header secret' payload')
          = hex_encode (hmac_sha256 (bytes_of_string secret') (bytes_of_string payload'))"
    unfolding signature_header_def by (rule replace_first_prefix [where r = "[]", simplified]) simp
  moreover have "signature_header secret' payload' \<noteq> []"
    by (simp add: signature_header_def)
  ultimately show ?thesis
    by (simp add: verifySignature_cases hex_decode_encode length_hmac_sha256)
qed

text \<open>
  C2 (as amended). For every body and secret, \<open>verifySignature\<close> accepts the header
  \<open>sha256=\<close> followed by the hex digest of that body. For the digest of any other body it
  returns, without throwing, whether the two digests are equal: false exactly when the
  digests differ.
\<close>

theorem verifySignature_own_digest:
  "verifySignature secret body (signature_header secret body) = Inr True
   \<and> verifySignature secret body (signature_header secret body') =
       Inr (hmac_sha256 (bytes_of_string secret) (bytes_of_string body')
            = hmac_sha256 (bytes_of_string secret) (bytes_of_string body))"
  by (simp add: verifySignature_signature_header)

text \<open>
  The digest has 32 bytes and there are infinitely many bodies, so two distinct bodies
  share a digest under any key.
\<close>

lemma hmac_collision:
  "\<exists>b b'. b' \<noteq> b \<and> hmac_sha256 k (bytes_of_string b') = hmac_sha256 k (bytes_of_string b)"
proof -
  let ?f = "\<lambda>b. hmac_sha256 k (bytes_of_string b)"
  have "range ?f \<subseteq> {bs. set bs \<subseteq> (UNIV :: byte set) \<and> length bs = 32}"
    by (auto simp add: length_hmac_sha256)
  moreover have "finite {bs. set bs \<subseteq> (UNIV :: byte set) \<and> length bs = 32}"
    by (rule finite_lists_length_eq) simp
  ultimately have "finite (range ?f)"
    by (rule finite_subset)
  moreover have "infinite (UNIV :: string set)"
    by (rule infinite_UNIV_listI)
  ultimately have "\<not> inj ?f"
    using finite_imageD by blast
  then show ?thesis
    unfolding inj_def by metis
qed

text \<open>
  C2 as stated (the digest of every other body is rejected) does not hold: a body whose
  digest collides with the signed one is accepted.
\<close>

theorem other_body_digest_counterexample:
  "\<not> (\<forall>secret body body'. body' \<noteq> body \<longrightarrow>
        verifySignature secret body (signature_header secret body') = Inr False)"
proof
  assume a: "\<forall>secret body body'. body' \<noteq> body \<longrightarrow>
        verifySignature secret body (signature_header secret body') = Inr False"
  obtain b b' where "b' \<noteq> b"
    and "hmac_sha256 (bytes_of_string ''your-webhook-secret'') (bytes_of_string b')
         = hmac_sha256 (bytes_of_string ''your-webhook-secret'') (bytes_of_string b)"
    using hmac_collision by blast
  then show False
    using a by (simp add: verifySignature_signature_header)
qed

text \<open>
  C1. For a header whose digest part has the wrong length or is not hex,
  \<open>verifySignature\<close> should return false without throwing. It does not: at the header of
  the repository's own end-to-end test (\<open>'X-Signature-256': 'invalid-signature'\<close>, for
  which the test expects the status 401) the decoded buffer is empty, \<open>timingSafeEqual\<close>
  throws, and the handler's outer \<open>catch\<close> answers 500.
\<close>

theorem invalid_signature_throws:
  "verifySignature (WEBHOOK_SECRET None) ''{\"test\":\"data\"}'' ''invalid-signature''
     = Inl (Error ''Input buffers must have the same byte length'')
   \<and> http_status (POST (WEBHOOK_SECRET None) parse cache 0 0 0 1
        \<lparr>request_text = ''{\"test\":\"data\"}'', x_signature_256 = Some ''invalid-signature'',
         x_hub_signature_256 = None\<rparr>) = 500"
  by (simp add: verifySignature_cases POST_def POST_try_def request_signature_def unhex_def)

section \<open>Properties of the POST handler\<close>

lemma signature_header_not_Nil: "signature_header secret body \<noteq> []"
  by (simp add: signature_header_def)

lemma handleRevalidation_unknown:
  assumes "data_type d = Some ty" "ty \<notin> {''post'', ''page'', ''settings'', ''media''}"
  shows "handleRevalidation cache t0 t1 d =
     \<lparr>success = False, revalidatedPaths = [], revalidatedTags = [],
      error = Some (''Unknown content type: '' @ ty), processingTime = t1 - t0\<rparr>"
  using assms
  by (simp add: handleRevalidation_def getErrorResult_def createRevalidationManager_def)

text \<open>
  C6. For every validated payload whose \<open>data.type\<close> is outside post, page, settings and
  media, the dispatcher returns a result with \<open>success\<close> false and a non-empty error
  string, and the handler answers with the status 500; the handler is a total function to
  responses, so nothing escapes it.
\<close>

theorem unknown_type_fails:
  assumes "verifySignature secret (request_text request) (request_signature request) = Inr True"
    and "JSON_parse (request_text request) = JsonObject payload"
    and "truthy_str (event payload)" "data payload = Some d"
    and "data_type d = Some ty" "ty \<noteq> []"
    and "ty \<notin> {''post'', ''page'', ''settings'', ''media''}"
  shows "success (handleRevalidation cache t0 t1 d) = False
       \<and> (\<exists>e. error (handleRevalidation cache t0 t1 d) = Some e \<and> e \<noteq> [])
       \<and> http_status (POST secret JSON_parse cache t_start t0 t1 t_catch request) = 500"
  using assms handleRevalidation_unknown [of d ty cache t0 t1]
  by (simp add: POST_def POST_try_def)

theorem unknown_type_fails_witness:
  "success (handleRevalidation \<lparr>next_revalidatePath = (\<lambda>p. None), next_revalidateTag = (\<lambda>t. None)\<rparr> 5 9
      \<lparr>data_type = Some ''unknown-type'', data_id = None, data_slug = None,
       data_domain = ''example.com'', data_status = None, data_action = Update\<rparr>) = False
   \<and> http_status (POST ''s3cret''
        (\<lambda>b. JsonObject \<lparr>event = Some ''content.updated'',
           data = Some \<lparr>data_type = Some ''unknown-type'', data_id = None, data_slug = None,
             data_domain = ''example.com'', data_status = None, data_action = Update\<rparr>,
           timestamp = None\<rparr>)
        \<lparr>next_revalidatePath = (\<lambda>p. None), next_revalidateTag = (\<lambda>t. None)\<rparr> 0 5 9 10
        \<lparr>request_text = ''{}'', x_signature_256 = Some (signature_header ''s3cret'' ''{}''),
         x_hub_signature_256 = None\<rparr>) = 500"
proof -
  let ?d = "\<lparr>data_type = Some ''unknown-type'', data_id = None, data_slug = None,
       data_domain = ''example.com'', data_status = None, data_action = Update\<rparr>"
  let ?p = "\<lparr>event = Some ''content.updated'', data = Some ?d, timestamp = None\<rparr>"
  let ?r = "\<lparr>request_text = ''{}'', x_signature_256 = Some (signature_header ''s3cret'' ''{}''),
         x_hub_signature_256 = None\<rparr>"
  have sig: "verifySignature ''s3cret'' (request_text ?r) (request_signature ?r) = Inr True"
    by (simp add: request_signature_def verifySignature_signature_header signature_header_not_Nil)
  show ?thesis
    using unknown_type_fails [of "''s3cret''" ?r "\<lambda>b. JsonObject ?p" ?p ?d "''unknown-type''", OF sig]
    by simp
qed

section \<open>Properties of the deploy-hook trigger\<close>

text \<open>
  C7. For every environment and reason \<open>triggerDeploy\<close> returns a structured result and
  never propagates an exception (it is a total function to results: the only statements
  outside its \<open>try\<close> cannot throw). If the environment's deploy-hook URL is absent it
  returns a failure at once, without a network call; a response outside 200..299 gives a
  failure carrying the status text; a rejected \<open>fetch\<close> gives a failure with the error's
  message. A result is a success exactly when it has no error.
\<close>

theorem triggerDeploy_structured:
  "(hook_url (getDeployHook config env) = [] \<longrightarrow>
      triggerDeploy config fetch now env reason =
        (\<lparr>deploy_success = False, deploymentId = None,
          deploy_error = Some (''No deploy hook configured for '' @ environment_name env)\<rparr>, []))
   \<and> (\<forall>resp. hook_url (getDeployHook config env) \<noteq> []
         \<and> fetch (deploy_request (getDeployHook config env) now env reason) = Resolves resp
         \<and> \<not> response_ok resp \<longrightarrow>
        fst (triggerDeploy config fetch now env reason) =
          \<lparr>deploy_success = False, deploymentId = None,
           deploy_error = Some (''Deploy hook returned '' @ decimal (response_status resp)
                                @ '': '' @ response_statusText resp)\<rparr>)
   \<and> (\<forall>e. hook_url (getDeployHook config env) \<noteq> []
         \<and> fetch (deploy_request (getDeployHook config env) now env reason) = Rejects e \<longrightarrow>
        fst (triggerDeploy config fetch now env reason) =
          \<lparr>deploy_success = False, deploymentId = None, deploy_error = Some (error_message e)\<rparr>)
   \<and> (deploy_success (fst (triggerDeploy config fetch now env reason))
        \<longleftrightarrow> deploy_error (fst (triggerDeploy config fetch now env reason)) = None)"
  by (auto simp add: triggerDeploy_def triggerDeploy_try_def Let_def
      split: fetch_outcome.splits response_json.splits sum.splits if_splits)

theorem triggerDeploy_structured_witness:
  "triggerDeploy
     \<lparr>config_endpoint = ''https://example.com/api/webhooks/build'', config_secret = ''s'',
      deployHooks = \<lparr>staging = \<lparr>hook_url = '''', hook_name = ''staging-auto-deploy'',
                                 hook_branch = ''main'', hook_environment = Staging\<rparr>,
                     production = \<lparr>hook_url = ''https://hooks.example.com/p'',
                                    hook_name = ''production-auto-deploy'',
                                    hook_branch = ''main'', hook_environment = Production\<rparr>\<rparr>\<rparr>
     (\<lambda>q. Rejects (Error ''fetch failed'')) 1000 Staging (Some ''content'')
   = (\<lparr>deploy_success = False, deploymentId = None,
       deploy_error = Some ''No deploy hook configured for staging''\<rparr>, [])
   \<and> fst (triggerDeploy
     \<lparr>config_endpoint = ''https://example.com/api/webhooks/build'', config_secret = ''s'',
      deployHooks = \<lparr>staging = \<lparr>hook_url = '''', hook_name = ''staging-auto-deploy'',
                                 hook_branch = ''main'', hook_environment = Staging\<rparr>,
                     production = \<lparr>hook_url = ''https://hooks.example.com/p'',
                                    hook_name = ''production-auto-deploy'',
                                    hook_branch = ''main'', hook_environment = Production\<rparr>\<rparr>\<rparr>
     (\<lambda>q. Resolves \<lparr>response_status = 503, response_statusText = ''Service Unavailable'',
                     response_json = JsonIsNull\<rparr>) 1000 Production None)
   = \<lparr>deploy_success = False, deploymentId = None,
      deploy_error = Some ''Deploy hook returned 503: Service Unavailable''\<rparr>
   \<and> fst (triggerDeploy
     \<lparr>config_endpoint = ''https://example.com/api/webhooks/build'', config_secret = ''s'',
      deployHooks = \<lparr>staging = \<lparr>hook_url = '''', hook_name = ''staging-auto-deploy'',
                                 hook_branch = ''main'', hook_environment = Staging\<rparr>,
                     production = \<lparr>hook_url = ''https://hooks.example.com/p'',
                                    hook_name = ''production-auto-deploy'',
                                    hook_branch = ''main'', hook_environment = Production\<rparr>\<rparr>\<rparr>
     (\<lambda>q. Rejects (Error ''fetch failed'')) 1000 Production None)
   = \<lparr>deploy_success = False, deploymentId = None, deploy_error = Some ''fetch failed''\<rparr>"
proof -
  let ?c = "\<lparr>config_endpoint = ''https://example.com/api/webhooks/build'', config_secret = ''s'',
      deployHooks = \<lparr>staging = \<lparr>hook_url = '''', hook_name = ''staging-auto-deploy'',
                                 hook_branch = ''main'', hook_environment = Staging\<rparr>,
                     production = \<lparr>hook_url = ''https://hooks.example.com/p'',
                                    hook_name = ''production-auto-deploy'',
                                    hook_branch = ''main'', hook_environment = Production\<rparr>\<rparr>\<rparr>"
  let ?down = "\<lambda>q::fetch_request. Resolves \<lparr>response_status = 503,
      response_statusText = ''Service Unavailable'', response_json = JsonIsNull\<rparr>"
  let ?off = "\<lambda>q::fetch_request. Rejects (Error ''fetch failed'')"
  have d: "decimal 503 = ''503''" by code_simp
  show ?thesis
    using triggerDeploy_structured [of ?c Staging ?off 1000 "Some ''content''"]
      triggerDeploy_structured [of ?c Production ?down 1000 None]
      triggerDeploy_structured [of ?c Production ?off 1000 None]
    by (simp add: response_ok_def d)
qed

section \<open>Properties of the deployment queue\<close>




















section \<open>Properties of the deployment monitor\<close>

subsection \<open>The insertion-ordered map\<close>

lemma map_of_map_set: "map_of (map_set k v m) = (map_of m)(k \<mapsto> v)"
  by (induction m) (auto simp add: fun_eq_iff)

lemma keys_map_set: "map fst (map_set k v m) = insert_key (map fst m) k"
  by (induction m) (force simp add: insert_key_def)+

lemma length_map_set: "length (map_set k v m) \<le> Suc (length m)"
  by (induction m) auto

lemma set_map_set: "set (map_set k v m) \<subseteq> insert (k, v) (set m)"
  by (induction m) (auto split: if_splits)

lemma distinct_insert_key: "distinct ks \<Longrightarrow> distinct (insert_key ks k)"
  by (simp add: insert_key_def)

lemma map_of_map_delete: "j \<noteq> k \<Longrightarrow> map_of (map_delete k m) j = map_of m j"
  by (induction m) (auto simp add: map_delete_def)

lemma map_delete_head:
  "distinct (map fst ((k, v) # m)) \<Longrightarrow> map_delete k ((k, v) # m) = m"
  by (auto simp add: map_delete_def filter_id_conv rev_image_eqI)

subsection \<open>updateDeployment\<close>

lemma length_updateDeployment:
  assumes "length mon \<le> maxHistory"
  shows "length (updateDeployment now d mon) \<le> maxHistory"
proof -
  let ?m = "map_set (upd_id d) (merged now d (getDeployment (upd_id d) mon)) mon"
  have "length ?m \<le> Suc (length mon)"
    by (rule length_map_set)
  with assms have le: "length ?m \<le> Suc maxHistory"
    by simp
  show ?thesis
  proof (cases ?m)
    case Nil
    then show ?thesis by (simp add: updateDeployment_def Let_def)
  next
    case (Cons p rest)
    obtain k v where p: "p = (k, v)" by (cases p)
    have "length (map_delete k ?m) \<le> length rest"
      by (simp add: Cons p map_delete_def)
    with le Cons show ?thesis
      by (auto simp add: updateDeployment_def Let_def p)
  qed
qed

lemma keys_updateDeployment:
  assumes "distinct (map fst mon)"
  shows "map fst (updateDeployment now d mon) = key_step (map fst mon) (upd_id d)"
proof -
  let ?m = "map_set (upd_id d) (merged now d (getDeployment (upd_id d) mon)) mon"
  have keys: "map fst ?m = insert_key (map fst mon) (upd_id d)"
    by (rule keys_map_set)
  have dist: "distinct (map fst ?m)"
    using assms by (simp add: keys distinct_insert_key)
  show ?thesis
  proof (cases ?m)
    case Nil
    with keys show ?thesis by (simp add: insert_key_def split: if_splits)
  next
    case (Cons p rest)
    obtain k v where p: "p = (k, v)" by (cases p)
    have "map_delete k ?m = rest"
      using dist unfolding Cons p by (rule map_delete_head)
    moreover have "map fst rest = tl (insert_key (map fst mon) (upd_id d))"
      using keys [symmetric] by (simp add: Cons)
    moreover have "length ?m = length (insert_key (map fst mon) (upd_id d))"
      using keys by (metis length_map)
    ultimately show ?thesis
      using keys by (simp add: updateDeployment_def Let_def key_step_def Cons p)
  qed
qed

lemma distinct_key_step: "distinct ks \<Longrightarrow> distinct (key_step ks k)"
  by (simp add: key_step_def distinct_insert_key distinct_tl)

text \<open>The record of the id just written is the merged one: it is never the one dropped.\<close>

lemma getDeployment_updateDeployment:
  assumes "length mon \<le> maxHistory"
  shows "getDeployment (upd_id d) (updateDeployment now d mon)
           = Some (merged now d (getDeployment (upd_id d) mon))"
proof -
  let ?v = "merged now d (getDeployment (upd_id d) mon)"
  let ?m = "map_set (upd_id d) ?v mon"
  have look: "map_of ?m (upd_id d) = Some ?v"
    by (simp add: map_of_map_set)
  show ?thesis
  proof (cases "length ?m > maxHistory")
    case False
    with look show ?thesis
      by (simp add: updateDeployment_def Let_def getDeployment_def)
  next
    case True
    obtain k v rest where m: "?m = (k, v) # rest"
      using True by (cases ?m) auto
    have new: "upd_id d \<notin> set (map fst mon)"
    proof
      assume "upd_id d \<in> set (map fst mon)"
      then have "map fst ?m = map fst mon"
        by (simp add: keys_map_set insert_key_def)
      then have "length ?m = length mon"
        by (metis length_map)
      with True assms show False by simp
    qed
    then have "map fst ?m = map fst mon @ [upd_id d]"
      by (simp add: keys_map_set insert_key_def)
    moreover have "mon \<noteq> []"
      using True assms length_map_set [of "upd_id d" ?v mon] new
      by (auto simp add: maxHistory_def)
    ultimately have "k \<in> set (map fst mon)"
      using m by (cases mon) auto
    with new have "upd_id d \<noteq> k" by auto
    then have "map_of (map_delete k ?m) (upd_id d) = Some ?v"
      using look by (simp add: map_of_map_delete)
    with True m show ?thesis
      by (simp add: updateDeployment_def Let_def getDeployment_def)
  qed
qed

subsection \<open>Every operation is an update of its id\<close>

lemma apply_op_is_update:
  assumes "op_id x = Some k"
  shows "\<exists>d. upd_id d = k \<and> apply_op (now, x) mon = updateDeployment now d mon"
  using assms
  by (cases x)
     (auto simp add: startDeployment_def markBuilding_def markReady_def markFailed_def
        only_id_def Let_def intro!: exI)

lemma length_apply_op:
  assumes "length mon \<le> maxHistory"
  shows "length (apply_op x mon) \<le> maxHistory"
proof (cases "op_id (snd x)")
  case None
  then have "snd x = ClearHistory" by (cases "snd x") auto
  then show ?thesis by (cases x) (simp add: clearHistory_def)
next
  case (Some k)
  then obtain d where "apply_op (fst x, snd x) mon = updateDeployment (fst x) d mon"
    using apply_op_is_update by blast
  with assms show ?thesis by (simp add: length_updateDeployment)
qed

lemma length_run_ops:
  "length mon \<le> maxHistory \<Longrightarrow> length (run_ops ops mon) \<le> maxHistory"
  by (induction ops arbitrary: mon) (simp_all add: length_apply_op)

lemma keys_apply_op:
  assumes "distinct (map fst mon)" "op_id x = Some k"
  shows "map fst (apply_op (now, x) mon) = key_step (map fst mon) k"
proof -
  obtain d where "upd_id d = k" "apply_op (now, x) mon = updateDeployment now d mon"
    using apply_op_is_update [OF assms(2)] by blast
  with assms(1) show ?thesis by (simp add: keys_updateDeployment)
qed

lemma keys_run_ops:
  assumes "distinct (map fst mon)" "ClearHistory \<notin> snd ` set ops"
  shows "map fst (run_ops ops mon) = foldl key_step (map fst mon) (op_ids ops)"
  using assms
proof (induction ops arbitrary: mon)
  case Nil
  then show ?case by simp
next
  case (Cons x xs)
  obtain now y where x: "x = (now, y)" by (cases x)
  from Cons.prems have "y \<noteq> ClearHistory" by (auto simp add: x)
  then obtain k where k: "op_id y = Some k" by (cases y) auto
  have step: "map fst (apply_op x mon) = key_step (map fst mon) k"
    unfolding x using Cons.prems(1) k by (rule keys_apply_op)
  moreover have "distinct (map fst (apply_op x mon))"
    using Cons.prems(1) by (simp add: step distinct_key_step)
  moreover have "ClearHistory \<notin> snd ` set xs"
    using Cons.prems(2) by auto
  ultimately show ?case
    using Cons.IH [of "apply_op x mon"] by (simp add: x k)
qed

subsection \<open>The history bound\<close>

lemma run_ops_bounded: "length (run_ops ops new_monitor) \<le> maxHistory"
  by (rule length_run_ops) (simp add: new_monitor_def)

text \<open>While at most \<open>maxHistory\<close> distinct ids have been seen, the keys are the ids in the order
  of their first occurrence, and nothing is dropped.\<close>

lemma foldl_insert_key_set: "set (foldl insert_key ks ids) = set ks \<union> set ids"
  by (induction ids arbitrary: ks) (auto simp add: insert_key_def)

lemma foldl_insert_key_distinct:
  "distinct ks \<Longrightarrow> distinct (foldl insert_key ks ids)"
  by (induction ids arbitrary: ks) (simp_all add: distinct_insert_key)

lemma foldl_insert_key_hd:
  "ks \<noteq> [] \<Longrightarrow> hd (foldl insert_key ks ids) = hd ks"
  by (induction ids arbitrary: ks) (simp_all add: insert_key_def)

lemma foldl_key_step_small:
  assumes "card (set ids) \<le> maxHistory"
  shows "foldl key_step [] ids = foldl insert_key [] ids"
  using assms
proof (induction ids rule: rev_induct)
  case Nil
  show ?case by simp
next
  case (snoc x xs)
  let ?ks = "foldl insert_key [] xs"
  have "card (set xs) \<le> card (set (xs @ [x]))"
    by (rule card_mono) auto
  with snoc have IH: "foldl key_step [] xs = ?ks" by simp
  have "distinct (insert_key ?ks x)"
    by (simp add: distinct_insert_key foldl_insert_key_distinct)
  moreover have "set (insert_key ?ks x) = set (xs @ [x])"
    using foldl_insert_key_set [of "[]" xs] by (auto simp add: insert_key_def)
  ultimately have "length (insert_key ?ks x) = card (set (xs @ [x]))"
    by (metis distinct_card)
  with snoc.prems have "key_step ?ks x = insert_key ?ks x"
    by (simp add: key_step_def)
  then show ?case
    by (simp add: IH)
qed

lemma foldl_key_step_present:
  assumes "set ids \<subseteq> set ks" "length ks \<le> maxHistory"
  shows "foldl key_step ks ids = ks"
  using assms by (induction ids) (simp_all add: key_step_def insert_key_def)

lemma keys_after_51:
  assumes none: "ClearHistory \<notin> snd ` set (pre @ [(t, x)] @ post)"
    and full: "card (set (op_ids pre)) = maxHistory"
    and fresh: "op_id x = Some k" "k \<notin> set (op_ids pre)"
    and post: "set (op_ids post) \<subseteq> insert k (set (op_ids pre)) - {hd (op_ids pre)}"
  shows "map fst (run_ops (pre @ [(t, x)] @ post) new_monitor)
           = tl (foldl insert_key [] (op_ids pre)) @ [k]"
    and "set (map fst (run_ops (pre @ [(t, x)] @ post) new_monitor))
           = insert k (set (op_ids pre)) - {hd (op_ids pre)}"
proof -
  let ?A = "foldl insert_key [] (op_ids pre)"
  have ids: "op_ids (pre @ (t, x) # post) = op_ids pre @ k # op_ids post"
    using fresh(1) by (induction pre) (auto split: option.splits)
  have A_set: "set ?A = set (op_ids pre)" by (simp add: foldl_insert_key_set)
  have A_dist: "distinct ?A" by (simp add: foldl_insert_key_distinct)
  have A_len: "length ?A = maxHistory"
    using A_set A_dist full by (metis distinct_card)
  have ne: "op_ids pre \<noteq> []"
    using full by (auto simp add: maxHistory_def)
  have A_ne: "?A \<noteq> []"
    using A_len by (auto simp add: maxHistory_def)
  have A_hd: "hd ?A = hd (op_ids pre)"
  proof -
    obtain i rest where c: "op_ids pre = i # rest" using ne by (cases "op_ids pre") auto
    have "hd (foldl insert_key [i] rest) = hd [i]"
      by (rule foldl_insert_key_hd) simp
    then show ?thesis by (simp add: c insert_key_def)
  qed
  have pre: "foldl key_step [] (op_ids pre) = ?A"
    using full by (simp add: foldl_key_step_small)
  have step: "key_step ?A k = tl ?A @ [k]"
    using fresh(2) A_set A_len A_ne by (simp add: key_step_def insert_key_def)
  have tl_set: "set (tl ?A) = set (op_ids pre) - {hd (op_ids pre)}"
  proof -
    have "?A = hd ?A # tl ?A" using A_ne by simp
    moreover from this have "hd ?A \<notin> set (tl ?A)"
      using A_dist by (metis distinct.simps(2))
    ultimately have "set (tl ?A) = set ?A - {hd ?A}"
      by (metis Diff_insert_absorb list.simps(15))
    then show ?thesis using A_set A_hd by simp
  qed
  have "hd (op_ids pre) \<in> set (op_ids pre)"
    using ne by simp
  with fresh(2) have "k \<noteq> hd (op_ids pre)"
    by blast
  then have keys_set: "set (tl ?A @ [k]) = insert k (set (op_ids pre)) - {hd (op_ids pre)}"
    by (simp add: tl_set insert_Diff_if)
  have "foldl key_step (tl ?A @ [k]) (op_ids post) = tl ?A @ [k]"
  proof (rule foldl_key_step_present)
    show "set (op_ids post) \<subseteq> set (tl ?A @ [k])" using post keys_set by simp
    show "length (tl ?A @ [k]) \<le> maxHistory" using A_len by (simp add: maxHistory_def)
  qed
  then have "foldl key_step [] (op_ids (pre @ [(t, x)] @ post)) = tl ?A @ [k]"
    by (simp add: ids pre step)
  moreover have "map fst (run_ops (pre @ [(t, x)] @ post) new_monitor)
      = foldl key_step (map fst new_monitor) (op_ids (pre @ [(t, x)] @ post))"
    by (rule keys_run_ops) (simp add: new_monitor_def, rule none)
  ultimately show k: "map fst (run_ops (pre @ [(t, x)] @ post) new_monitor) = tl ?A @ [k]"
    by (simp add: new_monitor_def)
  show "set (map fst (run_ops (pre @ [(t, x)] @ post) new_monitor))
           = insert k (set (op_ids pre)) - {hd (op_ids pre)}"
    unfolding k by (rule keys_set)
qed

lemma getDeployment_None_iff: "getDeployment k mon = None \<longleftrightarrow> k \<notin> set (map fst mon)"
  by (simp add: getDeployment_def map_of_eq_None_iff)

text \<open>
  C4. The monitor's collection never holds more than 50 entries, after any sequence of
  operations on a new monitor. When 51 distinct ids are inserted, in any interleaving
  with operations on ids that are in the collection at the time (\<open>pre\<close> brings in the
  first fifty ids, \<open>x\<close> the fifty-first, \<open>post\<close> touches ids still present), exactly 50
  entries are left, the earliest-inserted id is the one evicted, and the other fifty ids
  are all present.
\<close>

theorem history_bound:
  "length (run_ops ops new_monitor) \<le> 50
   \<and> (ClearHistory \<notin> snd ` set (pre @ [(t, x)] @ post)
       \<and> card (set (op_ids pre)) = 50
       \<and> op_id x = Some k \<and> k \<notin> set (op_ids pre)
       \<and> set (op_ids post) \<subseteq> insert k (set (op_ids pre)) - {hd (op_ids pre)}
      \<longrightarrow> length (run_ops (pre @ [(t, x)] @ post) new_monitor) = 50
          \<and> getDeployment (hd (op_ids pre)) (run_ops (pre @ [(t, x)] @ post) new_monitor) = None
          \<and> (\<forall>j \<in> insert k (set (op_ids pre)) - {hd (op_ids pre)}.
               getDeployment j (run_ops (pre @ [(t, x)] @ post) new_monitor) \<noteq> None))"
proof (intro conjI impI)
  show "length (run_ops ops new_monitor) \<le> 50"
    using run_ops_bounded [of ops] by (simp add: maxHistory_def)
next
  assume a: "ClearHistory \<notin> snd ` set (pre @ [(t, x)] @ post)
       \<and> card (set (op_ids pre)) = 50
       \<and> op_id x = Some k \<and> k \<notin> set (op_ids pre)
       \<and> set (op_ids post) \<subseteq> insert k (set (op_ids pre)) - {hd (op_ids pre)}"
  let ?mon = "run_ops (pre @ [(t, x)] @ post) new_monitor"
  let ?A = "foldl insert_key [] (op_ids pre)"
  from a have full: "card (set (op_ids pre)) = maxHistory" by (simp add: maxHistory_def)
  from a have none: "ClearHistory \<notin> snd ` set (pre @ [(t, x)] @ post)"
    and fresh: "op_id x = Some k" "k \<notin> set (op_ids pre)"
    and post: "set (op_ids post) \<subseteq> insert k (set (op_ids pre)) - {hd (op_ids pre)}"
    by simp_all
  have keys: "map fst ?mon = tl ?A @ [k]"
    by (rule keys_after_51 (1) [OF none full fresh post])
  have keys_set: "set (map fst ?mon) = insert k (set (op_ids pre)) - {hd (op_ids pre)}"
    by (rule keys_after_51 (2) [OF none full fresh post])
  have "distinct ?A" "set ?A = set (op_ids pre)"
    by (simp_all add: foldl_insert_key_distinct foldl_insert_key_set)
  then have "length ?A = card (set (op_ids pre))"
    by (metis distinct_card)
  then have "length (map fst ?mon) = 50"
    unfolding keys using full by (simp add: maxHistory_def)
  then show "length ?mon = 50" by simp
  show "getDeployment (hd (op_ids pre)) ?mon = None"
    unfolding getDeployment_None_iff keys_set by simp
  show "\<forall>j \<in> insert k (set (op_ids pre)) - {hd (op_ids pre)}. getDeployment j ?mon \<noteq> None"
    unfolding getDeployment_None_iff keys_set by simp
qed

theorem history_bound_witness:
  "length (run_ops (map (\<lambda>i. (int i, StartDeployment (decimal i) Staging)) [1..<51]
                    @ [(51, StartDeployment ''51'' Production)]
                    @ [(52, MarkBuilding ''2'' None)]) new_monitor) = 50
   \<and> getDeployment ''1''
       (run_ops (map (\<lambda>i. (int i, StartDeployment (decimal i) Staging)) [1..<51]
                    @ [(51, StartDeployment ''51'' Production)]
                    @ [(52, MarkBuilding ''2'' None)]) new_monitor) = None"
proof -
  let ?pre = "map (\<lambda>i. (int i, StartDeployment (decimal i) Staging)) [1..<51]"
  let ?x = "StartDeployment ''51'' Production"
  let ?post = "[(52::int, MarkBuilding ''2'' None)]"
  have ids: "op_ids ?pre = map decimal [1..<51]"
    by code_simp
  have h1: "ClearHistory \<notin> snd ` set (?pre @ [(51, ?x)] @ ?post)"
    by auto
  have h2: "card (set (op_ids ?pre)) = 50"
    unfolding ids by code_simp
  have h3: "op_id ?x = Some ''51''" "''51'' \<notin> set (op_ids ?pre)"
    unfolding ids by code_simp+
  have h4: "set (op_ids ?post) \<subseteq> insert ''51'' (set (op_ids ?pre)) - {hd (op_ids ?pre)}"
    unfolding ids by code_simp
  have h5: "hd (op_ids ?pre) = ''1''"
    unfolding ids by code_simp
  from history_bound [of "[]" ?pre 51 ?x ?post "''51''"] h1 h2 h3 h4
  show ?thesis
    unfolding h5 by blast
qed

subsection \<open>Stored records\<close>

lemma truthy_date_the: "truthy_date u \<Longrightarrow> truthy_date (Some (the u))"
  by (cases u) simp_all

lemma merged_createdAt_truthy: "truthy_date (Some (createdAt (merged now d existing)))"
proof -
  have "truthy_date (Some (createdAt (the existing)))"
    if "truthy_date (map_option createdAt existing)"
    using that by (cases existing) simp_all
  then show ?thesis
    by (simp add: merged_def truthy_date_the)
qed

lemma set_map_delete: "set (map_delete k m) \<subseteq> set m"
  by (simp add: map_delete_def)

lemma set_updateDeployment:
  "set (updateDeployment now d mon)
     \<subseteq> insert (upd_id d, merged now d (getDeployment (upd_id d) mon)) (set mon)"
proof -
  let ?m = "map_set (upd_id d) (merged now d (getDeployment (upd_id d) mon)) mon"
  have "set (updateDeployment now d mon) \<subseteq> set ?m"
  proof (cases ?m)
    case Nil
    then show ?thesis by (simp add: updateDeployment_def Let_def)
  next
    case (Cons p rest)
    obtain k v where p: "p = (k, v)" by (cases p)
    have "updateDeployment now d mon = (if length ?m > maxHistory then map_delete k ?m else ?m)"
      unfolding updateDeployment_def Let_def Cons p by simp
    then show ?thesis
      using set_map_delete [of k ?m] by (simp split: if_splits)
  qed
  also have "\<dots> \<subseteq> insert (upd_id d, merged now d (getDeployment (upd_id d) mon)) (set mon)"
    by (rule set_map_set)
  finally show ?thesis .
qed

lemma createdAt_updateDeployment:
  assumes "\<forall>p \<in> set mon. truthy_date (Some (createdAt (snd p)))"
  shows "\<forall>p \<in> set (updateDeployment now d mon). truthy_date (Some (createdAt (snd p)))"
proof
  fix p assume "p \<in> set (updateDeployment now d mon)"
  with set_updateDeployment [of now d mon]
  have "p = (upd_id d, merged now d (getDeployment (upd_id d) mon)) \<or> p \<in> set mon"
    by blast
  then show "truthy_date (Some (createdAt (snd p)))"
  proof
    assume "p = (upd_id d, merged now d (getDeployment (upd_id d) mon))"
    then show ?thesis by (simp add: merged_createdAt_truthy)
  next
    assume "p \<in> set mon"
    with assms show ?thesis by (rule bspec)
  qed
qed

lemma createdAt_apply_op:
  assumes "\<forall>p \<in> set mon. truthy_date (Some (createdAt (snd p)))"
  shows "\<forall>p \<in> set (apply_op x mon). truthy_date (Some (createdAt (snd p)))"
proof (cases "op_id (snd x)")
  case None
  then have "snd x = ClearHistory" by (cases "snd x") auto
  then show ?thesis by (cases x) (simp add: clearHistory_def)
next
  case (Some k)
  then obtain d where "apply_op (fst x, snd x) mon = updateDeployment (fst x) d mon"
    using apply_op_is_update by blast
  with assms show ?thesis by (simp add: createdAt_updateDeployment)
qed

lemma createdAt_run_ops:
  "\<forall>p \<in> set mon. truthy_date (Some (createdAt (snd p)))
   \<Longrightarrow> \<forall>p \<in> set (run_ops ops mon). truthy_date (Some (createdAt (snd p)))"
proof (induction ops arbitrary: mon)
  case Nil
  then show ?case by simp
next
  case (Cons x xs)
  have "\<forall>p \<in> set (apply_op x mon). truthy_date (Some (createdAt (snd p)))"
    using Cons.prems by (rule createdAt_apply_op)
  then have "\<forall>p \<in> set (run_ops xs (apply_op x mon)). truthy_date (Some (createdAt (snd p)))"
    by (rule Cons.IH)
  then show ?case by simp
qed

lemma reachable_createdAt:
  assumes "getDeployment k (run_ops ops new_monitor) = Some x"
  shows "truthy_date (Some (createdAt x))"
proof -
  have "(k, x) \<in> set (run_ops ops new_monitor)"
    using assms by (simp add: getDeployment_def map_of_SomeD)
  moreover have "\<forall>p \<in> set (run_ops ops new_monitor). truthy_date (Some (createdAt (snd p)))"
    by (rule createdAt_run_ops) (simp add: new_monitor_def)
  ultimately have "truthy_date (Some (createdAt (snd (k, x))))"
    by (rule bspec [rotated])
  then show ?thesis by simp
qed

subsection \<open>markReady and markFailed\<close>

lemma getDeployment_startDeployment:
  assumes "length mon \<le> maxHistory"
  shows "getDeployment k (startDeployment now k env mon) =
     Some (merged now ((only_id k)\<lparr>upd_environment := Some env, upd_status := Some StatusPending\<rparr>)
             (getDeployment k mon))"
  using getDeployment_updateDeployment [OF assms,
      of "(only_id k)\<lparr>upd_environment := Some env, upd_status := Some StatusPending\<rparr>" now]
  by (simp add: startDeployment_def only_id_def)

lemma length_startDeployment:
  "length mon \<le> maxHistory \<Longrightarrow> length (startDeployment now k env mon) \<le> maxHistory"
  by (simp add: startDeployment_def length_updateDeployment)

lemma getDeployment_markReady:
  assumes "length mon \<le> maxHistory"
  shows "getDeployment k (markReady now k url buildTime mon) =
     Some (merged now
             ((only_id k)\<lparr>upd_status := Some StatusReady, upd_url := url,
                upd_duration := (if truthy_num buildTime then buildTime
                                 else elapsed now (getDeployment k mon))\<rparr>)
             (getDeployment k mon))"
  using getDeployment_updateDeployment [OF assms,
      of "(only_id k)\<lparr>upd_status := Some StatusReady, upd_url := url,
                upd_duration := (if truthy_num buildTime then buildTime
                                 else elapsed now (getDeployment k mon))\<rparr>" now]
  by (simp add: markReady_def only_id_def Let_def)

lemma getDeployment_markFailed:
  assumes "length mon \<le> maxHistory"
  shows "getDeployment k (markFailed now k err logs mon) =
     Some (merged now
             ((only_id k)\<lparr>upd_status := Some StatusError, upd_error := Some err,
                upd_duration := elapsed now (getDeployment k mon), upd_buildLogs := logs\<rparr>)
             (getDeployment k mon))"
  using getDeployment_updateDeployment [OF assms,
      of "(only_id k)\<lparr>upd_status := Some StatusError, upd_error := Some err,
                upd_duration := elapsed now (getDeployment k mon), upd_buildLogs := logs\<rparr>" now]
  by (simp add: markFailed_def only_id_def Let_def)

text \<open>
  C5 (as amended). After \<open>startDeployment(id, 'staging')\<close> and \<open>markReady(id, url, 5000)\<close>
  on any monitor, the record of \<open>id\<close> has the state ready and the duration 5000. When
  \<open>markReady\<close> (without a build time) or \<open>markFailed\<close> is called on an id whose record
  exists with a \<open>createdAt\<close> that is a date, the stored duration becomes the time elapsed
  since \<open>createdAt\<close> if that time is not zero, and stays what it was if it is zero.
\<close>

theorem markReady_duration:
  "(\<exists>y. getDeployment k
           (markReady t2 k url (Some (Num 5000))
              (startDeployment t1 k Staging (run_ops ops new_monitor))) = Some y
        \<and> dep_status y = StatusReady \<and> duration y = Some (Num 5000))
   \<and> (getDeployment k (run_ops ops new_monitor) = Some x \<and> createdAt x = IsoDate c \<longrightarrow>
        (\<exists>y. getDeployment k (markReady now k url None (run_ops ops new_monitor)) = Some y
           \<and> duration y = (if now - c \<noteq> 0 then Some (Num (now - c)) else duration x))
      \<and> (\<exists>y. getDeployment k (markFailed now k err logs (run_ops ops new_monitor)) = Some y
           \<and> duration y = (if now - c \<noteq> 0 then Some (Num (now - c)) else duration x)))"
proof (intro conjI impI)
  let ?mon = "run_ops ops new_monitor"
  have len: "length ?mon \<le> maxHistory" by (rule run_ops_bounded)
  have len': "length (startDeployment t1 k Staging ?mon) \<le> maxHistory"
    using len by (rule length_startDeployment)
  show "\<exists>y. getDeployment k (markReady t2 k url (Some (Num 5000)) (startDeployment t1 k Staging ?mon)) = Some y
        \<and> dep_status y = StatusReady \<and> duration y = Some (Num 5000)"
    by (simp add: getDeployment_markReady [OF len'] merged_def only_id_def)
next
  let ?mon = "run_ops ops new_monitor"
  assume a: "getDeployment k ?mon = Some x \<and> createdAt x = IsoDate c"
  have len: "length ?mon \<le> maxHistory" by (rule run_ops_bounded)
  from a have el: "elapsed t (Some x) = Some (Num (t - c))" for t
    by (simp add: elapsed_def)
  show "\<exists>y. getDeployment k (markReady now k url None ?mon) = Some y
           \<and> duration y = (if now - c \<noteq> 0 then Some (Num (now - c)) else duration x)"
    using a by (simp add: getDeployment_markReady [OF len] el merged_def only_id_def)
  show "\<exists>y. getDeployment k (markFailed now k err logs ?mon) = Some y
           \<and> duration y = (if now - c \<noteq> 0 then Some (Num (now - c)) else duration x)"
    using a by (simp add: getDeployment_markFailed [OF len] el merged_def only_id_def)
qed

theorem markReady_duration_witness:
  "(\<exists>y. getDeployment ''dpl_1''
           (markReady 7000 ''dpl_1'' (Some ''https://x'') (Some (Num 5000))
              (startDeployment 1000 ''dpl_1'' Staging (run_ops [] new_monitor))) = Some y
        \<and> dep_status y = StatusReady \<and> duration y = Some (Num 5000))
   \<and> (\<exists>y. getDeployment ''dpl_1''
           (markReady 1250 ''dpl_1'' None None
              (run_ops [(1000, StartDeployment ''dpl_1'' Staging)] new_monitor)) = Some y
        \<and> duration y = Some (Num 250))"
proof -
  let ?ops = "[(1000::int, StartDeployment ''dpl_1'' Staging)]"
  let ?x = "merged 1000 ((only_id ''dpl_1'')\<lparr>upd_environment := Some Staging,
                upd_status := Some StatusPending\<rparr>) None"
  have g: "getDeployment ''dpl_1'' (run_ops ?ops new_monitor) = Some ?x \<and> createdAt ?x = IsoDate 1000"
    by (simp add: startDeployment_def updateDeployment_def Let_def new_monitor_def
        getDeployment_def maxHistory_def merged_def only_id_def)
  show ?thesis
    using markReady_duration [where k = "''dpl_1''" and ?t2.0 = 7000 and url = "Some ''https://x''"
          and ?t1.0 = 1000 and ops = "[]"]
      markReady_duration [where k = "''dpl_1''" and ops = ?ops and x = ?x and c = 1000
          and now = 1250 and url = None] g
    by simp
qed

text \<open>
  C5 as stated does not hold when no time has elapsed: a \<open>markReady\<close> in the millisecond
  of the \<open>startDeployment\<close> computes the duration 0, which \<open>updateDeployment\<close> takes as
  absent, and the record keeps no duration.
\<close>

theorem markReady_same_millisecond_counterexample:
  "map_option createdAt (getDeployment ''dpl_1'' (startDeployment 1000 ''dpl_1'' Staging new_monitor))
     = Some (IsoDate 1000)
   \<and> map_option duration
       (getDeployment ''dpl_1''
          (markReady 1000 ''dpl_1'' None None (startDeployment 1000 ''dpl_1'' Staging new_monitor)))
     = Some None"
  by (simp add: markReady_def startDeployment_def updateDeployment_def Let_def new_monitor_def
      getDeployment_def maxHistory_def merged_def only_id_def elapsed_def)

subsection \<open>The frame of updateDeployment\<close>

text \<open>
  C10 (as amended). For every \<open>updateDeployment\<close> call on an id whose record exists, every
  field supplied as \<open>undefined\<close> or otherwise falsy (a duration 0 or \<open>NaN\<close>, an empty url
  or error) leaves the stored value as it was; \<open>createdAt\<close> is left as it was unless the
  call itself supplies a non-empty \<open>createdAt\<close>; and \<open>updatedAt\<close> becomes the current
  time on every call.
\<close>

theorem updateDeployment_frame:
  "getDeployment (upd_id d) (run_ops ops new_monitor) = Some x \<longrightarrow>
     (\<exists>y. getDeployment (upd_id d) (updateDeployment now d (run_ops ops new_monitor)) = Some y
        \<and> (upd_environment d = None \<longrightarrow> dep_environment y = dep_environment x)
        \<and> (upd_status d = None \<longrightarrow> dep_status y = dep_status x)
        \<and> (\<not> truthy_str (upd_url d) \<longrightarrow> dep_url y = dep_url x)
        \<and> (\<not> truthy_num (upd_duration d) \<longrightarrow> duration y = duration x)
        \<and> (\<not> truthy_str (upd_error d) \<longrightarrow> dep_error y = dep_error x)
        \<and> (upd_buildLogs d = None \<longrightarrow> buildLogs y = buildLogs x)
        \<and> (\<not> truthy_date (upd_createdAt d) \<longrightarrow> createdAt y = createdAt x)
        \<and> updatedAt y = IsoDate now)"
proof
  let ?mon = "run_ops ops new_monitor"
  assume a: "getDeployment (upd_id d) ?mon = Some x"
  have len: "length ?mon \<le> maxHistory" by (rule run_ops_bounded)
  have created: "truthy_date (Some (createdAt x))"
    using a by (rule reachable_createdAt)
  have "getDeployment (upd_id d) (updateDeployment now d ?mon) = Some (merged now d (Some x))"
    using getDeployment_updateDeployment [OF len, of d now] a by simp
  moreover have "upd_environment d = None \<longrightarrow> dep_environment (merged now d (Some x)) = dep_environment x"
    by (simp add: merged_def)
  moreover have "upd_status d = None \<longrightarrow> dep_status (merged now d (Some x)) = dep_status x"
    by (simp add: merged_def)
  moreover have "\<not> truthy_str (upd_url d) \<longrightarrow> dep_url (merged now d (Some x)) = dep_url x"
    by (simp add: merged_def)
  moreover have "\<not> truthy_num (upd_duration d) \<longrightarrow> duration (merged now d (Some x)) = duration x"
    by (simp add: merged_def)
  moreover have "\<not> truthy_str (upd_error d) \<longrightarrow> dep_error (merged now d (Some x)) = dep_error x"
    by (simp add: merged_def)
  moreover have "upd_buildLogs d = None \<longrightarrow> buildLogs (merged now d (Some x)) = buildLogs x"
    by (simp add: merged_def)
  moreover have "\<not> truthy_date (upd_createdAt d) \<longrightarrow> createdAt (merged now d (Some x)) = createdAt x"
    using created by (simp add: merged_def)
  moreover have "updatedAt (merged now d (Some x)) = IsoDate now"
    by (simp add: merged_def)
  ultimately show "\<exists>y. getDeployment (upd_id d) (updateDeployment now d ?mon) = Some y
        \<and> (upd_environment d = None \<longrightarrow> dep_environment y = dep_environment x)
        \<and> (upd_status d = None \<longrightarrow> dep_status y = dep_status x)
        \<and> (\<not> truthy_str (upd_url d) \<longrightarrow> dep_url y = dep_url x)
        \<and> (\<not> truthy_num (upd_duration d) \<longrightarrow> duration y = duration x)
        \<and> (\<not> truthy_str (upd_error d) \<longrightarrow> dep_error y = dep_error x)
        \<and> (upd_buildLogs d = None \<longrightarrow> buildLogs y = buildLogs x)
        \<and> (\<not> truthy_date (upd_createdAt d) \<longrightarrow> createdAt y = createdAt x)
        \<and> updatedAt y = IsoDate now"
    by (intro exI [of _ "merged now d (Some x)"] conjI)
qed

theorem updateDeployment_frame_witness:
  "\<exists>y. getDeployment ''dpl_1''
          (updateDeployment 2000
             ((only_id ''dpl_1'')\<lparr>upd_url := Some '''', upd_duration := Some (Num 0)\<rparr>)
             (run_ops [(1000, StartDeployment ''dpl_1'' Production),
                       (1500, MarkReady ''dpl_1'' (Some ''https://x'') (Some (Num 420)))] new_monitor))
        = Some y
      \<and> dep_environment y = Production \<and> dep_status y = StatusReady
      \<and> dep_url y = Some ''https://x'' \<and> duration y = Some (Num 420)
      \<and> createdAt y = IsoDate 1000 \<and> updatedAt y = IsoDate 2000"
proof -
  let ?ops = "[(1000::int, StartDeployment ''dpl_1'' Production),
               (1500, MarkReady ''dpl_1'' (Some ''https://x'') (Some (Num 420)))]"
  let ?d = "(only_id ''dpl_1'')\<lparr>upd_url := Some '''', upd_duration := Some (Num 0)\<rparr>"
  let ?x = "\<lparr>dep_id = ''dpl_1'', dep_environment = Production, dep_status = StatusReady,
             dep_url = Some ''https://x'', createdAt = IsoDate 1000, updatedAt = IsoDate 1500,
             duration = Some (Num 420), dep_error = None, buildLogs = []\<rparr>"
  have g: "getDeployment (upd_id ?d) (run_ops ?ops new_monitor) = Some ?x"
    by (simp add: startDeployment_def markReady_def updateDeployment_def Let_def new_monitor_def
        getDeployment_def maxHistory_def merged_def only_id_def)
  show ?thesis
    using updateDeployment_frame [where d = ?d and ops = ?ops and x = ?x and now = 2000] g
    by (auto simp add: only_id_def)
qed

text \<open>
  C10 as stated does not hold for \<open>createdAt\<close>: a call that supplies a \<open>createdAt\<close>
  replaces the one that was set.
\<close>

theorem createdAt_overwritten_counterexample:
  "map_option createdAt
     (getDeployment ''dpl_1'' (startDeployment 1000 ''dpl_1'' Staging new_monitor))
     = Some (IsoDate 1000)
   \<and> map_option createdAt
       (getDeployment ''dpl_1''
          (updateDeployment 2000 ((only_id ''dpl_1'')\<lparr>upd_createdAt := Some (IsoDate 5)\<rparr>)
             (startDeployment 1000 ''dpl_1'' Staging new_monitor)))
     = Some (IsoDate 5)"
  by (simp add: startDeployment_def updateDeployment_def Let_def new_monitor_def
      getDeployment_def maxHistory_def merged_def only_id_def)

end
